theory Spec2Isabelle
  imports Main "HOL-Library.AList"
begin

section \<open>Text\<close>

text \<open>
  Text is a \<^typ>\<open>string\<close>, one \<^typ>\<open>char\<close> for each character, so the model covers
  text whose characters have codes below 256. The operations below are the ones the
  script applies to text: \<^verbatim>\<open>startsWith\<close>, \<^verbatim>\<open>includes\<close>, \<^verbatim>\<open>trim\<close> and \<^verbatim>\<open>slice(0, n)\<close>
  in the page scripts, \<^verbatim>\<open>keyword in s\<close> and \<^verbatim>\<open>lower()\<close> in Python.
\<close>

fun startsWith :: "string \<Rightarrow> string \<Rightarrow> bool" where
  "startsWith s [] = True"
| "startsWith [] (c # p) = False"
| "startsWith (x # s) (c # p) = (x = c \<and> startsWith s p)"

text \<open>\<^verbatim>\<open>s.includes(k)\<close>, and Python's \<^verbatim>\<open>k in s\<close>: \<open>k\<close> occurs in \<open>s\<close> as a contiguous run.\<close>

fun str_includes :: "string \<Rightarrow> string \<Rightarrow> bool" where
  "str_includes [] k = (k = [])"
| "str_includes (x # s) k = (startsWith (x # s) k \<or> str_includes s k)"

definition py_in :: "string \<Rightarrow> string \<Rightarrow> bool" where
  "py_in k s = str_includes s k"

text \<open>
  White space and line terminators of the script language with codes below 256:
  tab, line feed, vertical tab, form feed, carriage return, space, no-break space.
\<close>

definition is_js_space :: "char \<Rightarrow> bool" where
  "is_js_space c = ((of_char c :: nat) \<in> {9, 10, 11, 12, 13, 32, 160})"

definition trim :: "string \<Rightarrow> string" where
  "trim s = rev (dropWhile is_js_space (rev (dropWhile is_js_space s)))"

text \<open>
  \<^verbatim>\<open>str.lower()\<close> on characters below 256: the letters A to Z, and the accented capitals
  from 192 to 222 without the multiplication sign 215, move up by 32.
\<close>

definition lower_char :: "char \<Rightarrow> char" where
  "lower_char c =
     (let n = (of_char c :: nat)
      in if (65 \<le> n \<and> n \<le> 90) \<or> (192 \<le> n \<and> n \<le> 222 \<and> n \<noteq> 215)
         then char_of (n + 32) else c)"

definition lower :: "string \<Rightarrow> string" where
  "lower s = map lower_char s"

section \<open>The page, as the scripts see it\<close>

text \<open>
  An exception thrown inside a page script. Reading \<^verbatim>\<open>cssRules\<close> of a cross-origin sheet
  throws \<open>SecurityError\<close>, \<^verbatim>\<open>querySelectorAll\<close> on a malformed selector throws
  \<open>SyntaxError\<close>, calling a property that is not a function throws \<open>TypeError\<close>, and
  reading an unbound identifier throws \<open>ReferenceError\<close>.
\<close>

datatype js_error = SecurityError | SyntaxError | TypeError | ReferenceError

text \<open>One entry of \<^verbatim>\<open>document.styleSheets\<close>: \<open>sheet_href\<close> is \<^verbatim>\<open>null\<close> (\<open>None\<close>) for a sheet
  without a URL; \<open>cssRules\<close> is the serialized text of each rule, or the exception that
  reading the rule list throws.\<close>

record stylesheet =
  sheet_href :: "string option"
  cssRules :: "js_error + string list"

text \<open>An element with the values \<^verbatim>\<open>getComputedStyle\<close> resolves for it.\<close>

record element =
  el_tagName :: string
  el_className :: string
  el_textContent :: "string option"
  computed_color :: string
  computed_backgroundColor :: string
  computed_borderColor :: string

text \<open>
  The document after navigation. \<open>computedStyle\<close> lists the property names that
  \<^verbatim>\<open>getComputedStyle(document.documentElement)\<close> yields by index, in index order;
  \<open>getPropertyValue\<close> is its lookup by name; \<open>querySelectorAll\<close> gives the matches of a
  selector in document order, or the exception it throws.
\<close>

record page =
  computedStyle :: "string list"
  getPropertyValue :: "string \<Rightarrow> string"
  styleSheets :: "stylesheet list"
  querySelectorAll :: "string \<Rightarrow> js_error + element list"

section \<open>Custom properties (lines 17 to 29)\<close>

text \<open>
  The loop over the indices of the computed style, with \<open>vars\<close> the object built so far.
  Assigning \<^verbatim>\<open>vars[prop]\<close> replaces the value of a key already there and appends a new
  key otherwise.
\<close>

fun css_vars_loop :: "page \<Rightarrow> string list \<Rightarrow> (string \<times> string) list \<Rightarrow> (string \<times> string) list" where
  "css_vars_loop pg [] vars = vars"
| "css_vars_loop pg (prop # props) vars =
     (if startsWith prop ''--'' \<and>
         (str_includes prop ''color'' \<or> str_includes prop ''theme'' \<or> str_includes prop ''hue'')
      then css_vars_loop pg props (AList.update prop (trim (getPropertyValue pg prop)) vars)
      else css_vars_loop pg props vars)"

definition css_vars_script :: "page \<Rightarrow> js_error + (string \<times> string) list" where
  "css_vars_script pg = Inr (css_vars_loop pg (computedStyle pg) [])"

section \<open>Stylesheets (lines 34 to 56)\<close>

text \<open>
  The objects the stylesheet script pushes: \<^verbatim>\<open>{href, rules}\<close> for a sheet that was read and
  \<^verbatim>\<open>{href, error}\<close> for one that was not. They reach Python as dictionaries with the same
  keys, \<^verbatim>\<open>null\<close> as \<^verbatim>\<open>None\<close>.
\<close>

datatype sheet_obj =
  Rules_obj (obj_href: "string option") (obj_rules: "string list")
| Error_obj (obj_href: "string option") (obj_error: string)

text \<open>
  The handler of line 47 calls \<^verbatim>\<open>str(e)\<close>. \<^verbatim>\<open>str\<close> is a Python builtin; the script runs in
  the page, where no binding of that name exists (the model takes a page that defines no
  global of that name), so evaluating the call throws \<open>ReferenceError\<close>.
\<close>

definition call_str :: "js_error \<Rightarrow> js_error + string" where
  "call_str e = Inl ReferenceError"

text \<open>
  The loop over \<^verbatim>\<open>document.styleSheets\<close>, with \<open>sheets\<close> the array built so far. The inner
  loop copies the text of each rule, which is the list \<open>cssRules\<close> holds. An exception
  thrown inside the handler leaves the loop and the script.
\<close>

fun sheets_loop :: "stylesheet list \<Rightarrow> sheet_obj list \<Rightarrow> js_error + sheet_obj list" where
  "sheets_loop [] sheets = Inr sheets"
| "sheets_loop (sheet # rest) sheets =
     (case cssRules sheet of
        Inr rules \<Rightarrow> sheets_loop rest (sheets @ [Rules_obj (sheet_href sheet) rules])
      | Inl e \<Rightarrow>
          (case call_str e of
             Inl e' \<Rightarrow> Inl e'
           | Inr msg \<Rightarrow> sheets_loop rest (sheets @ [Error_obj (sheet_href sheet) msg])))"

definition stylesheets_script :: "page \<Rightarrow> js_error + sheet_obj list" where
  "stylesheets_script pg = sheets_loop (styleSheets pg) []"

section \<open>Filtering the rules (lines 58 to 71)\<close>

definition color_keywords :: "string list" where
  "color_keywords =
     [''color'', ''background'', ''border'', ''rgb'', ''hsl'', ''hsv'', ''#'', ''var(--'']"

text \<open>\<^verbatim>\<open>any(keyword in rule.lower() for keyword in color_keywords)\<close>\<close>

definition is_color_rule :: "string \<Rightarrow> bool" where
  "is_color_rule rule = list_ex (\<lambda>keyword. py_in keyword (lower rule)) color_keywords"

fun keys :: "sheet_obj \<Rightarrow> string list" where
  "keys (Rules_obj h rs) = [''href'', ''rules'']"
| "keys (Error_obj h e) = [''href'', ''error'']"

text \<open>
  \<^verbatim>\<open>sheet.get('href', dflt)\<close>: the value stored under the key when the key is there, also
  when that value is \<^verbatim>\<open>None\<close>; the default only when the key is missing.
\<close>

definition get_href :: "sheet_obj \<Rightarrow> string \<Rightarrow> string option" where
  "get_href sheet dflt = (if ''href'' \<in> set (keys sheet) then obj_href sheet else Some dflt)"

record color_rule =
  source :: "string option"
  rule :: string

fun rules_loop :: "sheet_obj \<Rightarrow> string list \<Rightarrow> color_rule list \<Rightarrow> color_rule list" where
  "rules_loop sheet [] acc = acc"
| "rules_loop sheet (r # rs) acc =
     (if is_color_rule r
      then rules_loop sheet rs (acc @ [\<lparr>source = get_href sheet ''inline'', rule = r\<rparr>])
      else rules_loop sheet rs acc)"

text \<open>\<open>obj_rules\<close> is read only under the test that the key \<^verbatim>\<open>rules\<close> is there.\<close>

fun filter_loop :: "sheet_obj list \<Rightarrow> color_rule list \<Rightarrow> color_rule list" where
  "filter_loop [] acc = acc"
| "filter_loop (sheet # sheets) acc =
     (if ''rules'' \<in> set (keys sheet)
      then filter_loop sheets (rules_loop sheet (obj_rules sheet) acc)
      else filter_loop sheets acc)"

section \<open>Element samples (lines 74 to 100)\<close>

text \<open>The object pushed for one element; \<open>sample_text\<close> is its key \<^verbatim>\<open>text\<close>.\<close>

record sample =
  selector :: string
  tagName :: string
  className :: string
  color :: string
  backgroundColor :: string
  borderColor :: string
  sample_text :: string

definition selectors :: "string list" where
  \<open>selectors =
     [''button'', ''a'', ''.btn'', ''[class*="color"]'', ''[class*="theme"]'', ''body'', ''html'']\<close>

text \<open>
  \<^verbatim>\<open>elems.slice(0, 5)\<close>: \<^verbatim>\<open>querySelectorAll\<close> returns a \<^verbatim>\<open>NodeList\<close>, which has \<^verbatim>\<open>length\<close>,
  \<^verbatim>\<open>item\<close>, \<^verbatim>\<open>entries\<close>, \<^verbatim>\<open>forEach\<close>, \<^verbatim>\<open>keys\<close> and \<^verbatim>\<open>values\<close>; \<^verbatim>\<open>slice\<close> is a method of arrays.
  So \<^verbatim>\<open>elems.slice\<close> is \<^verbatim>\<open>undefined\<close>, and calling it throws \<open>TypeError\<close> whatever the
  list holds.
\<close>

definition NodeList_slice :: "element list \<Rightarrow> nat \<Rightarrow> nat \<Rightarrow> js_error + element list" where
  "NodeList_slice elems i j = Inl TypeError"

text \<open>\<^verbatim>\<open>el.textContent?.slice(0, 50) || ''\<close>\<close>

definition text_snippet :: "element \<Rightarrow> string" where
  "text_snippet el = (case el_textContent el of None \<Rightarrow> [] | Some t \<Rightarrow> take 50 t)"

definition sample_of :: "string \<Rightarrow> element \<Rightarrow> sample" where
  "sample_of sel el =
     \<lparr>selector = sel, tagName = el_tagName el, className = el_className el,
      color = computed_color el, backgroundColor = computed_backgroundColor el,
      borderColor = computed_borderColor el, sample_text = text_snippet el\<rparr>"

text \<open>
  The body of the \<^verbatim>\<open>try\<close> for one selector. Both calls that can throw come before the
  first \<^verbatim>\<open>push\<close>, so the body adds the samples of all the elements it loops over or throws
  having added none.
\<close>

definition selector_body :: "page \<Rightarrow> string \<Rightarrow> js_error + sample list" where
  "selector_body pg sel =
     (case querySelectorAll pg sel of
        Inl e \<Rightarrow> Inl e
      | Inr elems \<Rightarrow>
          (case NodeList_slice elems 0 5 of
             Inl e \<Rightarrow> Inl e
           | Inr firsts \<Rightarrow> Inr (map (sample_of sel) firsts)))"

text \<open>
  What the loop does besides pushing samples, in order: the selector each pass hands to
  \<^verbatim>\<open>querySelectorAll\<close>, and the exception its \<^verbatim>\<open>catch\<close> receives when the body throws.
\<close>

datatype loop_event = Queried string | Caught js_error

text \<open>
  The loop over the selectors. Its state is the array \<open>elements\<close> built so far and the
  events so far. Every pass starts by querying its selector; the empty \<^verbatim>\<open>catch\<close> drops
  the exception and the loop goes on with the next selector.
\<close>

fun selectors_loop ::
  "page \<Rightarrow> string list \<Rightarrow> sample list \<times> loop_event list \<Rightarrow> sample list \<times> loop_event list"
where
  "selectors_loop pg [] st = st"
| "selectors_loop pg (sel # rest) (elements, evs) =
     (case selector_body pg sel of
        Inl e \<Rightarrow> selectors_loop pg rest (elements, evs @ [Queried sel, Caught e])
      | Inr new \<Rightarrow> selectors_loop pg rest (elements @ new, evs @ [Queried sel]))"

text \<open>The script returns the array; the events are not part of its result.\<close>

definition element_colors_script :: "page \<Rightarrow> js_error + sample list" where
  "element_colors_script pg = Inr (fst (selectors_loop pg selectors ([], [])))"

text \<open>The selectors that were queried, in the order of the queries.\<close>

fun queried :: "loop_event list \<Rightarrow> string list" where
  "queried [] = []"
| "queried (Queried sel # evs) = sel # queried evs"
| "queried (Caught e # evs) = queried evs"

section \<open>\<^verbatim>\<open>extract_colors_from_page\<close> (lines 10 to 104)\<close>

text \<open>
  A Python exception of class \<^verbatim>\<open>Exception\<close>: \<open>Script_error e\<close> is the error
  \<^verbatim>\<open>page.evaluate\<close> raises when the script throws \<open>e\<close>; \<open>Failure m\<close> is any other one a
  library call raises (a navigation timeout, an unreachable host, an \<^verbatim>\<open>OSError\<close>).
\<close>

datatype exn = Script_error js_error | Failure string

definition evaluate :: "js_error + 'a \<Rightarrow> exn + 'a" where
  "evaluate r = (case r of Inl e \<Rightarrow> Inl (Script_error e) | Inr v \<Rightarrow> Inr v)"

record colors_info =
  css_variables :: "(string \<times> string) list"
  color_rules :: "color_rule list"
  element_colors :: "sample list"

definition extract_colors_from_page :: "page \<Rightarrow> exn + colors_info" where
  "extract_colors_from_page pg =
     (case evaluate (css_vars_script pg) of
        Inl e \<Rightarrow> Inl e
      | Inr css_vars \<Rightarrow>
     (case evaluate (stylesheets_script pg) of
        Inl e \<Rightarrow> Inl e
      | Inr stylesheets \<Rightarrow>
     (case evaluate (element_colors_script pg) of
        Inl e \<Rightarrow> Inl e
      | Inr elements \<Rightarrow>
          Inr \<lparr>css_variables = css_vars,
               color_rules = filter_loop stylesheets [],
               element_colors = elements\<rparr>)))"

section \<open>\<^verbatim>\<open>main\<close> (lines 106 to 156)\<close>

text \<open>
  What the world outside the script does in one run: whether launching the browser,
  opening the page and navigating raise, the document the page holds after navigation,
  whether opening the output file and writing the JSON text raise, and whether a
  screenshot to a given path raises. \<open>None\<close> is a call that returns.
  \<^verbatim>\<open>print\<close> and \<^verbatim>\<open>browser.close()\<close> are taken to return.
\<close>

record world =
  launch :: "exn option"
  new_page :: "exn option"
  goto :: "exn option"
  document :: page
  open_write :: "exn option"
  json_dump :: "exn option"
  screenshot :: "string \<Rightarrow> exn option"

text \<open>
  The calls a run makes on the browser and the file system. \<open>Screenshot path full\<close> has
  the \<^verbatim>\<open>full_page\<close> flag; \<open>Json_dump path v\<close> writes the serialization of \<open>v\<close> to the file
  opened at \<open>path\<close>.
\<close>

datatype call =
  Launch
| New_page
| Goto string
| Open_write string
| Json_dump string colors_info
| Screenshot string bool
| Close

text \<open>
  A run leaves a trace: the lines it prints and the calls it makes, each call with its
  outcome. \<open>Print_error e\<close> is the line \<^verbatim>\<open>print(f"Error: {e}")\<close>.
\<close>

datatype event = Print string | Print_error exn | Call call "exn option"

text \<open>\<^verbatim>\<open>str(n)\<close> for a length.\<close>

fun str_nat :: "nat \<Rightarrow> string" where
  "str_nat n =
     (if n < 10 then [char_of (48 + n)]
      else str_nat (n div 10) @ [char_of (48 + n mod 10)])"

text \<open>A file name between single quotes, as the messages print it.\<close>

definition quoted :: "string \<Rightarrow> string" where
  "quoted s = CHR 0x27 # s @ [CHR 0x27]"

text \<open>The lines of the summary (lines 123 to 140), in the order they are printed.\<close>

definition summary :: "colors_info \<Rightarrow> string list" where
  "summary info =
     [CHR 0x0A # ''Extraction complete!'',
      ''Found '' @ str_nat (length (css_variables info)) @ '' CSS variables'',
      ''Found '' @ str_nat (length (color_rules info)) @ '' color-related CSS rules'',
      ''Found '' @ str_nat (length (element_colors info)) @ '' element color samples'']
     @ (if css_variables info \<noteq> []
        then (CHR 0x0A # ''CSS Variables:'')
             # map (\<lambda>(var, val). ''  '' @ var @ '': '' @ val) (css_variables info)
        else [])
     @ [CHR 0x0A # ''Key Color Rules:'']
     @ map (\<lambda>r. ''  '' @ rule r) (take 10 (color_rules info))
     @ (if length (color_rules info) > 10
        then [''  ... and '' @ str_nat (length (color_rules info) - 10) @ '' more rules'']
        else [])"

text \<open>
  The body of the \<^verbatim>\<open>try\<close> (lines 112 to 144): the trace it leaves, and the exception that
  ends it, if any. The first call that raises ends the body.
\<close>

definition try_body :: "world \<Rightarrow> event list \<times> exn option" where
  "try_body w =
     (let t1 = [Print ''Navigating to animate-ui.com...''] in
      case goto w of
        Some e \<Rightarrow> (t1 @ [Call (Goto ''https://animate-ui.com/'') (Some e)], Some e)
      | None \<Rightarrow>
     (let t2 = t1 @ [Call (Goto ''https://animate-ui.com/'') None,
                     Print ''Extracting color information...''] in
      case extract_colors_from_page (document w) of
        Inl e \<Rightarrow> (t2, Some e)
      | Inr info \<Rightarrow>
     (case open_write w of
        Some e \<Rightarrow> (t2 @ [Call (Open_write ''animate_ui_colors.json'') (Some e)], Some e)
      | None \<Rightarrow>
     (let t3 = t2 @ [Call (Open_write ''animate_ui_colors.json'') None] in
      case json_dump w of
        Some e \<Rightarrow> (t3 @ [Call (Json_dump ''animate_ui_colors.json'' info) (Some e)], Some e)
      | None \<Rightarrow>
     (let t4 = t3 @ [Call (Json_dump ''animate_ui_colors.json'' info) None]
                  @ map Print (summary info) in
      case screenshot w ''animate_ui_screenshot.png'' of
        Some e \<Rightarrow> (t4 @ [Call (Screenshot ''animate_ui_screenshot.png'' True) (Some e)], Some e)
      | None \<Rightarrow>
          (t4 @ [Call (Screenshot ''animate_ui_screenshot.png'' True) None,
                 Print (CHR 0x0A # ''Screenshot saved as '' @ quoted ''animate_ui_screenshot.png'')],
           None))))))"

text \<open>
  The handler \<^verbatim>\<open>except Exception as e\<close> (lines 146 to 153). The inner \<^verbatim>\<open>try\<close> drops whatever
  the screenshot raises.
\<close>

definition except_body :: "world \<Rightarrow> exn \<Rightarrow> event list" where
  "except_body w e =
     Print_error e #
     (case screenshot w ''animate_ui_error.png'' of
        Some e' \<Rightarrow> [Call (Screenshot ''animate_ui_error.png'' False) (Some e')]
      | None \<Rightarrow>
          [Call (Screenshot ''animate_ui_error.png'' False) None,
           Print (''Error screenshot saved as '' @ quoted ''animate_ui_error.png'')])"

text \<open>
  \<^verbatim>\<open>main\<close>: the trace of the run and the exception that leaves \<^verbatim>\<open>main\<close>, if any. Launching
  the browser and opening the page come before the \<^verbatim>\<open>try\<close>, so what they raise leaves
  \<^verbatim>\<open>main\<close>; the \<^verbatim>\<open>finally\<close> closes the browser after the body and the handler.
\<close>

definition main :: "world \<Rightarrow> event list \<times> exn option" where
  "main w =
     (case launch w of
        Some e \<Rightarrow> ([Call Launch (Some e)], Some e)
      | None \<Rightarrow>
     (case new_page w of
        Some e \<Rightarrow> ([Call Launch None, Call New_page (Some e)], Some e)
      | None \<Rightarrow>
     (case try_body w of
        (t, None) \<Rightarrow> ([Call Launch None, Call New_page None] @ t @ [Call Close None], None)
      | (t, Some e) \<Rightarrow>
          ([Call Launch None, Call New_page None] @ t @ except_body w e @ [Call Close None],
           None))))"

text \<open>What a trace says about the run.\<close>

definition calls_of :: "event list \<Rightarrow> call list" where
  "calls_of t = concat (map (\<lambda>ev. case ev of Call c r \<Rightarrow> [c] | _ \<Rightarrow> []) t)"

text \<open>The paths of the files a run created or overwrote: calls that write and returned.\<close>

fun path_written :: "event \<Rightarrow> string list" where
  "path_written (Call (Open_write path) None) = [path]"
| "path_written (Call (Screenshot path full) None) = [path]"
| "path_written ev = []"

definition files_written :: "event list \<Rightarrow> string list" where
  "files_written t = concat (map path_written t)"

fun is_goto :: "call \<Rightarrow> bool" where
  "is_goto (Goto url) = True"
| "is_goto c = False"

fun is_json_call :: "call \<Rightarrow> bool" where
  "is_json_call (Open_write path) = True"
| "is_json_call (Json_dump path v) = True"
| "is_json_call c = False"

fun is_screenshot :: "call \<Rightarrow> bool" where
  "is_screenshot (Screenshot path full) = True"
| "is_screenshot c = False"

section \<open>Example pages and runs\<close>

text \<open>
  A page with five enumerated style properties, an inline sheet and a linked sheet, both
  readable, and six \<^verbatim>\<open>button\<close> elements.
\<close>

definition example_element :: element where
  "example_element =
     \<lparr>el_tagName = ''BUTTON'', el_className = ''btn'', el_textContent = Some ''Go'',
      computed_color = ''rgb(0, 0, 0)'', computed_backgroundColor = ''rgba(0, 0, 0, 0)'',
      computed_borderColor = ''rgb(0, 0, 0)''\<rparr>"

definition example_page :: page where
  "example_page =
     \<lparr>computedStyle = [''color'', ''--color-primary'', ''--spacing'', ''--theme-bg'', ''--Hue''],
      getPropertyValue = (\<lambda>p. if p = ''--color-primary'' then '' #fff '' else ''0''),
      styleSheets =
        [\<lparr>sheet_href = None,
          cssRules = Inr [''a { color: red; }'', ''p { margin: 0px; }'']\<rparr>,
         \<lparr>sheet_href = Some ''https://animate-ui.com/a.css'',
          cssRules = Inr [''b { BORDER: 0px; }'']\<rparr>],
      querySelectorAll =
        (\<lambda>s. if s = ''button'' then Inr (replicate 6 example_element) else Inr [])\<rparr>"

text \<open>What the extraction returns on \<open>example_page\<close>.\<close>

definition example_info :: colors_info where
  "example_info =
     \<lparr>css_variables = [(''--color-primary'', ''#fff''), (''--theme-bg'', ''0'')],
      color_rules =
        [\<lparr>source = None, rule = ''a { color: red; }''\<rparr>,
         \<lparr>source = Some ''https://animate-ui.com/a.css'', rule = ''b { BORDER: 0px; }''\<rparr>],
      element_colors = []\<rparr>"

text \<open>The same page with a third sheet, served from another origin, whose rule list
  cannot be read.\<close>

definition blocked_page :: page where
  "blocked_page =
     example_page\<lparr>styleSheets :=
       styleSheets example_page @
       [\<lparr>sheet_href = Some ''https://fonts.example.com/f.css'',
         cssRules = Inl SecurityError\<rparr>]\<rparr>"

text \<open>The same page in a document where the selector \<^verbatim>\<open>.btn\<close> is rejected.\<close>

definition bad_selector_page :: page where
  "bad_selector_page =
     example_page\<lparr>querySelectorAll :=
       (\<lambda>s. if s = ''.btn'' then Inl SyntaxError else querySelectorAll example_page s)\<rparr>"

text \<open>A run where every call returns, one where the host cannot be reached, one on the
  page with the unreadable sheet, one where only the full-page screenshot fails, and one
  where the browser starts and opening the page fails.\<close>

definition example_world :: world where
  "example_world =
     \<lparr>launch = None, new_page = None, goto = None, document = example_page,
      open_write = None, json_dump = None, screenshot = (\<lambda>path. None)\<rparr>"

definition unreachable_world :: world where
  "unreachable_world = example_world\<lparr>goto := Some (Failure ''net::ERR_NAME_NOT_RESOLVED'')\<rparr>"

definition blocked_world :: world where
  "blocked_world = example_world\<lparr>document := blocked_page\<rparr>"

definition tall_page_world :: world where
  "tall_page_world =
     example_world\<lparr>screenshot :=
       (\<lambda>path. if path = ''animate_ui_screenshot.png''
               then Some (Failure ''Cannot take screenshot larger than 32767 pixels'')
               else None)\<rparr>"


section \<open>Facts about text\<close>

lemma startsWith_iff: "startsWith s p \<longleftrightarrow> (\<exists>r. s = p @ r)"
  by (induction s p rule: startsWith.induct) auto

lemma str_includes_iff: "str_includes s k \<longleftrightarrow> (\<exists>a b. s = a @ k @ b)"
proof (induction s)
  case Nil
  then show ?case by auto
next
  case (Cons x s)
  show ?case
  proof
    assume "str_includes (x # s) k"
    then consider "startsWith (x # s) k" | "str_includes s k" by auto
    then show "\<exists>a b. x # s = a @ k @ b"
    proof cases
      case 1
      then obtain r where "x # s = k @ r" by (auto simp: startsWith_iff)
      then have "x # s = [] @ k @ r" by simp
      then show ?thesis by blast
    next
      case 2
      with Cons obtain a b where "s = a @ k @ b" by auto
      then have "x # s = (x # a) @ k @ b" by simp
      then show ?thesis by blast
    qed
  next
    assume "\<exists>a b. x # s = a @ k @ b"
    then obtain a b where ab: "x # s = a @ k @ b" by blast
    show "str_includes (x # s) k"
    proof (cases a)
      case Nil
      with ab have "startsWith (x # s) k" by (auto simp: startsWith_iff)
      then show ?thesis by simp
    next
      case (Cons y a')
      with ab have "s = a' @ k @ b" by simp
      with Cons.IH have "str_includes s k" by blast
      then show ?thesis by simp
    qed
  qed
qed

section \<open>Custom properties\<close>

lemma css_vars_loop_map_of:
  "map_of (css_vars_loop pg props vars) name =
     (if name \<in> set props \<and> startsWith name ''--'' \<and>
         (str_includes name ''color'' \<or> str_includes name ''theme'' \<or> str_includes name ''hue'')
      then Some (trim (getPropertyValue pg name))
      else map_of vars name)"
proof (induction props arbitrary: vars)
  case Nil
  then show ?case by simp
next
  case (Cons p props)
  show ?case
    by (simp only: css_vars_loop.simps Cons.IH update_conv' split: if_split)
       (auto simp del: startsWith.simps str_includes.simps)
qed

lemma css_vars_loop_distinct:
  "distinct (map fst vars) \<Longrightarrow> distinct (map fst (css_vars_loop pg props vars))"
  by (induction props arbitrary: vars)
     (simp_all add: distinct_update del: startsWith.simps str_includes.simps)

lemma extract_css_variables:
  "extract_colors_from_page pg = Inr info \<Longrightarrow>
     css_variables info = css_vars_loop pg (computedStyle pg) []"
  by (auto simp: extract_colors_from_page_def evaluate_def css_vars_script_def
           split: sum.splits)

lemma example_extract: "extract_colors_from_page example_page = Inr example_info"
  by code_simp

text \<open>
  C5. Whenever the extraction returns, \<open>css_variables\<close> has one entry for each name, and
  a name is a key exactly when the style enumeration yields it, it is a custom property
  (it starts with \<^verbatim>\<open>--\<close>) and it contains \<^verbatim>\<open>color\<close>, \<^verbatim>\<open>theme\<close> or \<^verbatim>\<open>hue\<close>, compared
  character by character, so case matters; the value stored is the trimmed property
  value. Every other name is absent.
\<close>

theorem css_variables_exact:
  assumes "extract_colors_from_page pg = Inr info"
  shows "distinct (map fst (css_variables info)) \<and>
         (\<forall>name. map_of (css_variables info) name =
            (if name \<in> set (computedStyle pg) \<and> startsWith name ''--'' \<and>
                (str_includes name ''color'' \<or> str_includes name ''theme'' \<or>
                 str_includes name ''hue'')
             then Some (trim (getPropertyValue pg name))
             else None))"
proof -
  have eq: "css_variables info = css_vars_loop pg (computedStyle pg) []"
    using assms by (rule extract_css_variables)
  have "distinct (map fst (css_vars_loop pg (computedStyle pg) []))"
    by (rule css_vars_loop_distinct) simp
  moreover have "\<forall>name. map_of (css_vars_loop pg (computedStyle pg) []) name =
            (if name \<in> set (computedStyle pg) \<and> startsWith name ''--'' \<and>
                (str_includes name ''color'' \<or> str_includes name ''theme'' \<or>
                 str_includes name ''hue'')
             then Some (trim (getPropertyValue pg name))
             else None)"
    by (simp only: css_vars_loop_map_of map_of.simps) simp
  ultimately show ?thesis by (simp only: eq) simp
qed

text \<open>On the example page: two of the five enumerated names are kept; \<^verbatim>\<open>color\<close> is not a
  custom property, \<^verbatim>\<open>--spacing\<close> has no keyword and \<^verbatim>\<open>--Hue\<close> has it in another case.\<close>

theorem css_variables_exact_witness:
  "extract_colors_from_page example_page = Inr example_info \<and>
   distinct (map fst (css_variables example_info)) \<and>
   map_of (css_variables example_info) ''--color-primary'' = Some ''#fff'' \<and>
   map_of (css_variables example_info) ''--theme-bg'' = Some ''0'' \<and>
   map_of (css_variables example_info) ''color'' = None \<and>
   map_of (css_variables example_info) ''--spacing'' = None \<and>
   map_of (css_variables example_info) ''--Hue'' = None"
proof -
  have h: "extract_colors_from_page example_page = Inr example_info"
    by code_simp
  have d: "distinct (map fst (css_variables example_info))"
    and m: "\<And>name. map_of (css_variables example_info) name =
            (if name \<in> set (computedStyle example_page) \<and> startsWith name ''--'' \<and>
                (str_includes name ''color'' \<or> str_includes name ''theme'' \<or>
                 str_includes name ''hue'')
             then Some (trim (getPropertyValue example_page name))
             else None)"
    using css_variables_exact [OF h] by blast+
  have "map_of (css_variables example_info) ''--color-primary'' = Some ''#fff''"
    by (simp only: m) (simp add: example_page_def trim_def is_js_space_def)
  moreover have "map_of (css_variables example_info) ''--theme-bg'' = Some ''0''"
    by (simp only: m) (simp add: example_page_def trim_def is_js_space_def)
  moreover have "map_of (css_variables example_info) ''color'' = None"
    by (simp only: m) (simp add: example_page_def)
  moreover have "map_of (css_variables example_info) ''--spacing'' = None"
    by (simp only: m) (simp add: example_page_def)
  moreover have "map_of (css_variables example_info) ''--Hue'' = None"
    by (simp only: m) (simp add: example_page_def)
  ultimately show ?thesis using h d by simp
qed

section \<open>Stylesheets and the rule filter\<close>

lemma rules_loop_eq:
  "rules_loop sheet rs acc =
     acc @ map (\<lambda>r. \<lparr>source = get_href sheet ''inline'', rule = r\<rparr>) (filter is_color_rule rs)"
  by (induction rs arbitrary: acc) simp_all

lemma sheets_loop_read:
  "sheets_loop (map (\<lambda>(h, rs). \<lparr>sheet_href = h, cssRules = Inr rs\<rparr>) read) sheets =
     Inr (sheets @ map (\<lambda>(h, rs). Rules_obj h rs) read)"
  by (induction read arbitrary: sheets) (simp_all add: case_prod_beta)

lemma filter_loop_read:
  "map rule (filter_loop (map (\<lambda>(h, rs). Rules_obj h rs) read) acc) =
     map rule acc @ filter is_color_rule (concat (map snd read))"
proof (induction read arbitrary: acc)
  case Nil
  then show ?case by simp
next
  case (Cons x read)
  obtain h rs where x: "x = (h, rs)" by (cases x)
  show ?case
    by (simp add: x Cons.IH rules_loop_eq comp_def)
qed

text \<open>
  C1. When every sheet of the document is read, \<open>read\<close> being the URL and the rules of
  each sheet in document order, the extraction returns, and the texts of \<open>color_rules\<close>
  are the rules of all sheets, sheet after sheet and in the order inside each sheet, that
  \<open>is_color_rule\<close> accepts (lowercase text containing one of the eight keywords), each
  text as it was read. So of the \<open>N\<close> rules met, the \<open>K\<close> accepted ones are listed, and
  the length is \<open>K\<close>.
\<close>

theorem color_rules_kept_in_order:
  assumes "styleSheets pg = map (\<lambda>(h, rs). \<lparr>sheet_href = h, cssRules = Inr rs\<rparr>) read"
  shows "\<exists>info. extract_colors_from_page pg = Inr info \<and>
           map rule (color_rules info) = filter is_color_rule (concat (map snd read)) \<and>
           length (color_rules info) = length (filter is_color_rule (concat (map snd read)))"
proof -
  have sheets: "stylesheets_script pg = Inr (map (\<lambda>(h, rs). Rules_obj h rs) read)"
    using sheets_loop_read [of read "[]"] by (simp add: stylesheets_script_def assms)
  define info where "info =
     \<lparr>css_variables = css_vars_loop pg (computedStyle pg) [],
      color_rules = filter_loop (map (\<lambda>(h, rs). Rules_obj h rs) read) [],
      element_colors = fst (selectors_loop pg selectors ([], []))\<rparr>"
  have ex: "extract_colors_from_page pg = Inr info"
    by (simp add: extract_colors_from_page_def evaluate_def css_vars_script_def sheets
          element_colors_script_def info_def)
  have kept: "map rule (color_rules info) = filter is_color_rule (concat (map snd read))"
    using filter_loop_read [of read "[]"] by (simp add: info_def)
  have "length (map rule (color_rules info)) =
          length (filter is_color_rule (concat (map snd read)))"
    by (simp only: kept)
  then have "length (color_rules info) = length (filter is_color_rule (concat (map snd read)))"
    by simp
  with ex kept show ?thesis by blast
qed

text \<open>On the example page: three rules in two sheets, two of them kept, in order; the
  second is kept through its lowercase text and listed with its capitals.\<close>

theorem color_rules_kept_in_order_witness:
  "styleSheets example_page =
     map (\<lambda>(h, rs). \<lparr>sheet_href = h, cssRules = Inr rs\<rparr>)
       [(None, [''a { color: red; }'', ''p { margin: 0px; }'']),
        (Some ''https://animate-ui.com/a.css'', [''b { BORDER: 0px; }''])] \<and>
   (\<exists>info. extract_colors_from_page example_page = Inr info \<and>
      map rule (color_rules info) = [''a { color: red; }'', ''b { BORDER: 0px; }''] \<and>
      length (color_rules info) = 2)"
proof -
  have h: "styleSheets example_page =
     map (\<lambda>(h, rs). \<lparr>sheet_href = h, cssRules = Inr rs\<rparr>)
       [(None, [''a { color: red; }'', ''p { margin: 0px; }'']),
        (Some ''https://animate-ui.com/a.css'', [''b { BORDER: 0px; }''])]"
    by (simp add: example_page_def)
  have f: "filter is_color_rule
             (concat (map snd
               [(None :: string option, [''a { color: red; }'', ''p { margin: 0px; }'']),
                (Some ''https://animate-ui.com/a.css'', [''b { BORDER: 0px; }''])])) =
           [''a { color: red; }'', ''b { BORDER: 0px; }'']"
    by code_simp
  show ?thesis
    using h color_rules_kept_in_order [OF h] by (simp only: f) (simp add: numeral_2_eq_2)
qed

text \<open>The script throws as soon as one sheet of the document cannot be read, whatever the
  other sheets are.\<close>

lemma sheets_loop_unreadable:
  "sh \<in> set shs \<Longrightarrow> cssRules sh = Inl e \<Longrightarrow> sheets_loop shs sheets = Inl ReferenceError"
proof (induction shs arbitrary: sheets)
  case Nil
  then show ?case by simp
next
  case (Cons x shs)
  show ?case
  proof (cases "cssRules x")
    case (Inl e')
    then show ?thesis by (simp add: call_str_def)
  next
    case (Inr rules)
    with Cons.prems have "sh \<in> set shs" by auto
    then have "sheets_loop shs (sheets @ [Rules_obj (sheet_href x) rules]) = Inl ReferenceError"
      using Cons.prems(2) by (rule Cons.IH)
    with Inr show ?thesis by simp
  qed
qed

text \<open>The Python filter, for its part, passes over an entry without the key \<^verbatim>\<open>rules\<close>.\<close>

lemma filter_loop_error_entry:
  "filter_loop (Error_obj h msg # sheets) acc = filter_loop sheets acc"
  by simp

text \<open>
  C3, at a page whose third sheet raises when its rule list is read: the handler's call
  to \<^verbatim>\<open>str\<close> throws, the script ends with that exception, and the extraction raises
  instead of returning the rules of the two readable sheets. The run then takes the
  failure path: it writes the error screenshot and no JSON file.
\<close>

theorem unreadable_sheet_aborts_extraction:
  "stylesheets_script blocked_page = Inl ReferenceError \<and>
   extract_colors_from_page blocked_page = Inl (Script_error ReferenceError) \<and>
   files_written (fst (main blocked_world)) = [''animate_ui_error.png'']"
  by code_simp

text \<open>Both kinds of entry have the key \<^verbatim>\<open>href\<close>, so the default is never taken.\<close>

lemma get_href_ignores_default: "get_href sheet dflt = obj_href sheet"
  by (cases sheet) (simp_all add: get_href_def)

text \<open>
  C4, at a page whose first sheet is inline: the kept rule of the inline sheet has the
  source \<^verbatim>\<open>None\<close>, the value its key \<^verbatim>\<open>href\<close> holds, and not the string \<^verbatim>\<open>inline\<close>; the rule
  of the linked sheet has that sheet's URL.
\<close>

theorem inline_sheet_source_is_none:
  "map_sum id (\<lambda>info. map source (color_rules info)) (extract_colors_from_page example_page) =
     Inr [None, Some ''https://animate-ui.com/a.css''] \<and>
   get_href (Rules_obj None [''a { color: red; }'']) ''inline'' = None"
  by code_simp

section \<open>Element samples\<close>

lemma selector_body_throws:
  "querySelectorAll pg sel = Inl e \<Longrightarrow> selector_body pg sel = Inl e"
  by (simp add: selector_body_def)

lemma selector_body_selector:
  "selector_body pg sel = Inr new \<Longrightarrow> s \<in> set new \<Longrightarrow> selector s = sel"
  by (auto simp: selector_body_def sample_of_def split: sum.splits)

lemma selectors_loop_append:
  "selectors_loop pg (xs @ ys) st = selectors_loop pg ys (selectors_loop pg xs st)"
proof (induction xs arbitrary: st)
  case Nil
  then show ?case by simp
next
  case (Cons x xs)
  obtain els evs where st: "st = (els, evs)" by (cases st)
  show ?case
    by (simp add: st Cons.IH split: sum.splits)
qed

text \<open>The samples collected do not depend on the events recorded so far.\<close>

lemma selectors_loop_elements:
  "fst (selectors_loop pg sels (els, evs)) = fst (selectors_loop pg sels (els, evs'))"
proof (induction sels arbitrary: els evs evs')
  case Nil
  then show ?case by simp
next
  case (Cons sel sels)
  show ?case
  proof (cases "selector_body pg sel")
    case (Inl e)
    then show ?thesis
      using Cons.IH [of els "evs @ [Queried sel, Caught e]" "evs' @ [Queried sel, Caught e]"]
      by simp
  next
    case (Inr new)
    then show ?thesis
      using Cons.IH [of "els @ new" "evs @ [Queried sel]" "evs' @ [Queried sel]"]
      by simp
  qed
qed

lemma queried_append: "queried (xs @ ys) = queried xs @ queried ys"
  by (induction xs rule: queried.induct) simp_all

text \<open>Every selector of the list is queried, in the order of the list, whatever the
  passes before it did.\<close>

lemma selectors_loop_queries_all:
  "queried (snd (selectors_loop pg sels (els, evs))) = queried evs @ sels"
proof (induction sels arbitrary: els evs)
  case Nil
  then show ?case by simp
next
  case (Cons sel sels)
  show ?case
  proof (cases "selector_body pg sel")
    case (Inl e)
    then show ?thesis
      using Cons.IH [of els "evs @ [Queried sel, Caught e]"] by (simp add: queried_append)
  next
    case (Inr new)
    then show ?thesis
      using Cons.IH [of "els @ new" "evs @ [Queried sel]"] by (simp add: queried_append)
  qed
qed

text \<open>A sample in the result was there from the start or comes from a selector whose
  body returned.\<close>

lemma selectors_loop_origin:
  "s \<in> set (fst (selectors_loop pg sels (acc, evs))) \<Longrightarrow>
     s \<in> set acc \<or> (\<exists>new. selector_body pg (selector s) = Inr new)"
proof (induction sels arbitrary: acc evs)
  case Nil
  then show ?case by simp
next
  case (Cons sel sels)
  show ?case
  proof (cases "selector_body pg sel")
    case (Inl e)
    with Cons.prems
    have "s \<in> set (fst (selectors_loop pg sels (acc, evs @ [Queried sel, Caught e])))"
      by simp
    then show ?thesis by (rule Cons.IH)
  next
    case (Inr new)
    with Cons.prems
    have "s \<in> set (fst (selectors_loop pg sels (acc @ new, evs @ [Queried sel])))"
      by simp
    then have "s \<in> set (acc @ new) \<or> (\<exists>new. selector_body pg (selector s) = Inr new)"
      by (rule Cons.IH)
    then show ?thesis
      using Inr selector_body_selector [of pg sel new s] by auto
  qed
qed

text \<open>Since \<open>NodeList_slice\<close> throws for every list, no selector adds a sample.\<close>

lemma selectors_loop_adds_nothing: "fst (selectors_loop pg sels (acc, evs)) = acc"
  by (induction sels arbitrary: acc evs)
     (simp_all add: selector_body_def NodeList_slice_def split: sum.splits)

lemma element_colors_script_empty: "element_colors_script pg = Inr []"
  by (simp add: element_colors_script_def selectors_loop_adds_nothing)

text \<open>
  C2, at a page where \<^verbatim>\<open>button\<close> matches six elements: the script returns no sample at
  all, for that selector or any other, where five samples for \<^verbatim>\<open>button\<close> are expected.
\<close>

theorem six_buttons_no_samples:
  "querySelectorAll example_page ''button'' = Inr (replicate 6 example_element) \<and>
   element_colors_script example_page = Inr [] \<and>
   map_sum id element_colors (extract_colors_from_page example_page) = Inr []"
  by code_simp

text \<open>
  C6. Take a selector whose query throws \<open>e\<close>, anywhere in a list of selectors, and the
  loop started in any state. The pass for that selector leaves the samples collected
  before it as they are, its \<^verbatim>\<open>catch\<close> receives \<open>e\<close>, and the loop then runs over the
  selectors after it: the run over the whole list is the run over those later selectors
  from the state the earlier ones left, with that query and that exception recorded.
  Every selector of the list, those after it included, is queried, in order. The
  samples at the end are those of the list without the selector. The element script as
  a whole returns a list, and no sample in the list belongs to the selector.
\<close>

theorem invalid_selector_skipped:
  assumes "querySelectorAll pg sel = Inl e"
  shows "selectors_loop pg (before @ sel # rest) st =
           selectors_loop pg rest
             (fst (selectors_loop pg before st),
              snd (selectors_loop pg before st) @ [Queried sel, Caught e]) \<and>
         queried (snd (selectors_loop pg (before @ sel # rest) (acc, []))) =
           before @ sel # rest \<and>
         fst (selectors_loop pg (before @ sel # rest) st) =
           fst (selectors_loop pg (before @ rest) st) \<and>
         (\<exists>samples. element_colors_script pg = Inr samples \<and>
            (\<forall>s \<in> set samples. selector s \<noteq> sel))"
proof -
  have body: "selector_body pg sel = Inl e"
    using assms by (rule selector_body_throws)
  obtain els evs where mid: "selectors_loop pg before st = (els, evs)"
    by (cases "selectors_loop pg before st")
  have step: "selectors_loop pg (before @ sel # rest) st =
                selectors_loop pg rest (els, evs @ [Queried sel, Caught e])"
    by (simp add: selectors_loop_append mid body)
  have without: "selectors_loop pg (before @ rest) st = selectors_loop pg rest (els, evs)"
    by (simp add: selectors_loop_append mid)
  have same: "fst (selectors_loop pg (before @ sel # rest) st) =
                fst (selectors_loop pg (before @ rest) st)"
    by (simp only: step without)
       (rule selectors_loop_elements)
  have all: "queried (snd (selectors_loop pg (before @ sel # rest) (acc, []))) =
               before @ sel # rest"
    by (simp add: selectors_loop_queries_all)
  have none: "selector s \<noteq> sel"
    if "s \<in> set (fst (selectors_loop pg selectors ([], [])))" for s
  proof
    assume "selector s = sel"
    moreover from that have "\<exists>new. selector_body pg (selector s) = Inr new"
      using selectors_loop_origin [of s pg selectors "[]" "[]"] by simp
    ultimately show False using body by simp
  qed
  from step same all none show ?thesis
    by (simp add: mid element_colors_script_def)
qed

text \<open>
  On the page that rejects \<^verbatim>\<open>.btn\<close>, with two selectors before it and two after it: the
  \<^verbatim>\<open>catch\<close> of the third pass receives the \<open>SyntaxError\<close> of the query, and \<^verbatim>\<open>body\<close> and
  \<^verbatim>\<open>html\<close> are queried after it. (The other passes end in the \<open>TypeError\<close> of
  \<open>NodeList_slice\<close>.)
\<close>

theorem invalid_selector_skipped_witness:
  "querySelectorAll bad_selector_page ''.btn'' = Inl SyntaxError \<and>
   selectors_loop bad_selector_page [''button'', ''a'', ''.btn'', ''body'', ''html''] ([], []) =
     ([], [Queried ''button'', Caught TypeError, Queried ''a'', Caught TypeError,
           Queried ''.btn'', Caught SyntaxError,
           Queried ''body'', Caught TypeError, Queried ''html'', Caught TypeError]) \<and>
   queried (snd (selectors_loop bad_selector_page
                   [''button'', ''a'', ''.btn'', ''body'', ''html''] ([], []))) =
     [''button'', ''a'', ''.btn'', ''body'', ''html''] \<and>
   (\<exists>samples. element_colors_script bad_selector_page = Inr samples \<and>
      (\<forall>s \<in> set samples. selector s \<noteq> ''.btn''))"
proof -
  have h: "querySelectorAll bad_selector_page ''.btn'' = Inl SyntaxError"
    by (simp add: bad_selector_page_def)
  show ?thesis
    using h invalid_selector_skipped
            [OF h, of "[''button'', ''a'']" "[''body'', ''html'']" "([], [])" "[]"]
    by (simp add: selector_body_def NodeList_slice_def bad_selector_page_def example_page_def)
qed

section \<open>The run\<close>

lemma calls_of_simps [simp]:
  "calls_of [] = []"
  "calls_of (Print s # t) = calls_of t"
  "calls_of (Print_error e # t) = calls_of t"
  "calls_of (Call c r # t) = c # calls_of t"
  "calls_of (t @ u) = calls_of t @ calls_of u"
  by (simp_all add: calls_of_def)

lemma calls_of_prints [simp]: "calls_of (map Print ls) = []"
  by (induction ls) simp_all

lemma files_written_simps [simp]:
  "files_written [] = []"
  "files_written (ev # t) = path_written ev @ files_written t"
  "files_written (t @ u) = files_written t @ files_written u"
  by (simp_all add: files_written_def)

lemma files_written_prints [simp]: "files_written (map Print ls) = []"
  by (induction ls) simp_all

lemma try_body_goto_fails:
  "goto w = Some e \<Longrightarrow>
     try_body w =
       ([Print ''Navigating to animate-ui.com...'',
         Call (Goto ''https://animate-ui.com/'') (Some e)], Some e)"
  by (simp add: try_body_def)

lemma try_body_extract_fails:
  "goto w = None \<Longrightarrow> extract_colors_from_page (document w) = Inl e \<Longrightarrow>
     try_body w =
       ([Print ''Navigating to animate-ui.com...'',
         Call (Goto ''https://animate-ui.com/'') None,
         Print ''Extracting color information...''], Some e)"
  by (simp add: try_body_def)



text \<open>Once the browser is launched and the page opened, the run is the body, the handler
  if the body raised, and the close; nothing leaves \<open>main\<close>.\<close>

lemma main_entered:
  "launch w = None \<Longrightarrow> new_page w = None \<Longrightarrow>
     main w =
       ([Call Launch None, Call New_page None] @ fst (try_body w)
          @ (case snd (try_body w) of None \<Rightarrow> [] | Some e \<Rightarrow> except_body w e)
          @ [Call Close None],
        None)"
  by (simp add: main_def split: prod.splits option.splits)

text \<open>The handler also covers the writing of the JSON file: a failure to open it or to
  write it is logged and followed by the error screenshot.\<close>

lemma json_write_failure_handled:
  assumes "launch w = None" and "new_page w = None" and "goto w = None"
    and "extract_colors_from_page (document w) = Inr info"
    and "open_write w = Some e \<or> (open_write w = None \<and> json_dump w = Some e)"
  shows "Print_error e \<in> set (fst (main w)) \<and>
         Call (Screenshot ''animate_ui_error.png'' False) (screenshot w ''animate_ui_error.png'')
           \<in> set (fst (main w))"
  using assms(3-5)
  by (auto simp: main_entered [OF assms(1,2)] try_body_def except_body_def
           split: option.splits)

text \<open>
  C7. In a run that reaches the \<^verbatim>\<open>try\<close>, if navigation raises \<open>e\<close>, or navigation returns
  and the extraction raises \<open>e\<close>, then nothing leaves \<open>main\<close>; the run neither opens nor
  writes the JSON file, so \<^verbatim>\<open>animate_ui_colors.json\<close> is not among the files written; the
  only screenshot call is one to \<^verbatim>\<open>animate_ui_error.png\<close>, whatever that call does; there
  is one navigation call; and \<open>e\<close> is logged.
\<close>

theorem navigation_or_extraction_failure:
  assumes "launch w = None" and "new_page w = None"
    and "goto w = Some e \<or> (goto w = None \<and> extract_colors_from_page (document w) = Inl e)"
  shows "snd (main w) = None \<and>
         filter is_json_call (calls_of (fst (main w))) = [] \<and>
         ''animate_ui_colors.json'' \<notin> set (files_written (fst (main w))) \<and>
         filter is_screenshot (calls_of (fst (main w))) =
           [Screenshot ''animate_ui_error.png'' False] \<and>
         length (filter is_goto (calls_of (fst (main w)))) = 1 \<and>
         Print_error e \<in> set (fst (main w))"
proof -
  from assms(3) consider
      (nav) "goto w = Some e"
    | (ext) "goto w = None" "extract_colors_from_page (document w) = Inl e"
    by auto
  then show ?thesis
  proof cases
    case nav
    show ?thesis
      by (simp add: main_entered [OF assms(1,2)] try_body_goto_fails [OF nav] except_body_def
            split: option.splits)
  next
    case ext
    show ?thesis
      by (simp add: main_entered [OF assms(1,2)] try_body_extract_fails [OF ext] except_body_def
            split: option.splits)
  qed
qed

text \<open>A run whose host cannot be reached, and a run whose extraction raises.\<close>

theorem navigation_or_extraction_failure_witness:
  "launch unreachable_world = None \<and> new_page unreachable_world = None \<and>
   goto unreachable_world = Some (Failure ''net::ERR_NAME_NOT_RESOLVED'') \<and>
   snd (main unreachable_world) = None \<and>
   filter is_json_call (calls_of (fst (main unreachable_world))) = [] \<and>
   filter is_screenshot (calls_of (fst (main unreachable_world))) =
     [Screenshot ''animate_ui_error.png'' False] \<and>
   launch blocked_world = None \<and> new_page blocked_world = None \<and>
   goto blocked_world = None \<and>
   extract_colors_from_page (document blocked_world) = Inl (Script_error ReferenceError) \<and>
   snd (main blocked_world) = None \<and>
   filter is_json_call (calls_of (fst (main blocked_world))) = [] \<and>
   filter is_screenshot (calls_of (fst (main blocked_world))) =
     [Screenshot ''animate_ui_error.png'' False]"
proof -
  have u: "launch unreachable_world = None" "new_page unreachable_world = None"
    "goto unreachable_world = Some (Failure ''net::ERR_NAME_NOT_RESOLVED'')"
    by (simp_all add: unreachable_world_def example_world_def)
  have b: "launch blocked_world = None" "new_page blocked_world = None"
    "goto blocked_world = None"
    by (simp_all add: blocked_world_def example_world_def)
  have x: "extract_colors_from_page (document blocked_world) = Inl (Script_error ReferenceError)"
    by code_simp
  show ?thesis
    using u b x
      navigation_or_extraction_failure
        [of unreachable_world "Failure ''net::ERR_NAME_NOT_RESOLVED''"]
      navigation_or_extraction_failure [of blocked_world "Script_error ReferenceError"]
    by simp
qed




text \<open>
  C10. In a run where navigation, extraction and the writing of the JSON file succeed
  and the full-page screenshot raises \<open>e\<close>, the JSON file has been written in full, \<open>e\<close>
  is logged, and the screenshot to \<^verbatim>\<open>animate_ui_error.png\<close> is attempted; when that one
  succeeds, the files the run leaves are \<^verbatim>\<open>animate_ui_colors.json\<close> and
  \<^verbatim>\<open>animate_ui_error.png\<close>.
\<close>

theorem failure_after_json_write:
  assumes "launch w = None" and "new_page w = None" and "goto w = None"
    and "extract_colors_from_page (document w) = Inr info"
    and "open_write w = None" and "json_dump w = None"
    and "screenshot w ''animate_ui_screenshot.png'' = Some e"
  shows "Call (Json_dump ''animate_ui_colors.json'' info) None \<in> set (fst (main w)) \<and>
         Print_error e \<in> set (fst (main w)) \<and>
         Call (Screenshot ''animate_ui_error.png'' False) (screenshot w ''animate_ui_error.png'')
           \<in> set (fst (main w)) \<and>
         (screenshot w ''animate_ui_error.png'' = None \<longrightarrow>
            files_written (fst (main w)) = [''animate_ui_colors.json'', ''animate_ui_error.png''])"
  using assms(3-7)
  by (simp add: main_entered [OF assms(1,2)] try_body_def except_body_def split: option.splits)

theorem failure_after_json_write_witness:
  "launch tall_page_world = None \<and> new_page tall_page_world = None \<and>
   goto tall_page_world = None \<and>
   extract_colors_from_page (document tall_page_world) = Inr example_info \<and>
   open_write tall_page_world = None \<and> json_dump tall_page_world = None \<and>
   screenshot tall_page_world ''animate_ui_screenshot.png'' =
     Some (Failure ''Cannot take screenshot larger than 32767 pixels'') \<and>
   screenshot tall_page_world ''animate_ui_error.png'' = None \<and>
   Call (Json_dump ''animate_ui_colors.json'' example_info) None
     \<in> set (fst (main tall_page_world)) \<and>
   Print_error (Failure ''Cannot take screenshot larger than 32767 pixels'')
     \<in> set (fst (main tall_page_world)) \<and>
   files_written (fst (main tall_page_world)) =
     [''animate_ui_colors.json'', ''animate_ui_error.png'']"
proof -
  have h: "launch tall_page_world = None" "new_page tall_page_world = None"
    "goto tall_page_world = None" "open_write tall_page_world = None"
    "json_dump tall_page_world = None"
    "screenshot tall_page_world ''animate_ui_screenshot.png'' =
       Some (Failure ''Cannot take screenshot larger than 32767 pixels'')"
    "screenshot tall_page_world ''animate_ui_error.png'' = None"
    by (simp_all add: tall_page_world_def example_world_def)
  have x: "extract_colors_from_page (document tall_page_world) = Inr example_info"
    by code_simp
  show ?thesis
    using h x failure_after_json_write [OF h(1,2,3) x h(4,5,6)] by simp
qed

end
